theory Spec2Isabelle
  imports Main
begin

section \<open>Values exchanged with the outside\<close>

text \<open>
  A decoded JSON document, as \<^verbatim>\<open>r.json()\<close> returns it. A Python dict is read through
  \<open>map_of\<close> on its items; numbers are integers here.
\<close>

datatype json =
  JNull
  | JBool bool
  | JNum int
  | JStr string
  | JArr "json list"
  | JObj "(string \<times> json) list"

text \<open>A command line value as argparse leaves it: absent (\<^verbatim>\<open>None\<close>), an int or a str.\<close>

datatype pyval = PNone | PInt int | PStr string

datatype py_exception =
  NoSectionError
  | NoOptionError
  | KeyError
  | IndexError
  | TypeError
  | ValueError
  | AttributeError
  | UnboundLocalError
  | ConnectionError

text \<open>
  How a run stops early: \<^verbatim>\<open>sys.exit(n)\<close>, or an exception nobody catches (the
  interpreter prints a traceback and the process ends with status 1).
\<close>

datatype abort = SysExit int | Uncaught py_exception

fun exit_code :: "abort + 'a \<Rightarrow> int" where
  "exit_code (Inl (SysExit n)) = n"
| "exit_code (Inl (Uncaught e)) = 1"
| "exit_code (Inr v) = 0"

text \<open>
  The settings held by the \<^verbatim>\<open>ConfigParser\<close>: sections of options, all values strings,
  kept as they were set or read from the file. \<open>config_get\<close> is the lookup of
  \<^verbatim>\<open>config.get\<close>; the expansion of \<open>%\<close> that the library applies to a value it has
  found (\<open>%%\<close> read as \<open>%\<close>, \<open>%(name)s\<close> replaced) is not modelled, so what is said about
  a value read is said for values without \<open>%\<close>. There is no default section.
\<close>

type_synonym config_section = "string \<rightharpoonup> string"
type_synonym config = "string \<rightharpoonup> config_section"

definition config_get :: "config \<Rightarrow> string \<Rightarrow> string \<Rightarrow> py_exception + string" where
  "config_get cfg sec opt =
     (case cfg sec of
        None \<Rightarrow> Inl NoSectionError
      | Some s \<Rightarrow> (case s opt of None \<Rightarrow> Inl NoOptionError | Some v \<Rightarrow> Inr v))"

text \<open>
  The check \<^verbatim>\<open>ConfigParser.set\<close> makes on a value before storing it
  (\<^verbatim>\<open>BasicInterpolation.before_set\<close>): \<^verbatim>\<open>value.replace('%%', '')\<close>, then every match of
  the pattern \<^verbatim>\<open>%\(([^)]+)\)s\<close> is removed, and no \<open>%\<close> may be left.
\<close>

fun drop_escaped :: "string \<Rightarrow> string" where
  "drop_escaped (a # b # cs) =
     (if a = CHR ''%'' \<and> b = CHR ''%'' then drop_escaped cs else a # drop_escaped (b # cs))"
| "drop_escaped cs = cs"

text \<open>
  A match of \<^verbatim>\<open>\(([^)]+)\)s\<close> at the start of the text after a \<open>%\<close>: an opening
  parenthesis, a non-empty name up to the first closing one, then \<open>s\<close>. The result is the
  text after the match.
\<close>

definition match_key :: "string \<Rightarrow> string option" where
  "match_key cs =
     (case cs of
        [] \<Rightarrow> None
      | c # ds \<Rightarrow>
          if c = CHR ''(''
          then (let name = takeWhile (\<lambda>x. x \<noteq> CHR '')'') ds;
                    rest = dropWhile (\<lambda>x. x \<noteq> CHR '')'') ds
                in if name \<noteq> [] \<and> take 2 rest = '')s'' then Some (drop 2 rest) else None)
          else None)"

text \<open>
  \<^verbatim>\<open>re.sub\<close> with the empty replacement: the text is scanned from the left, a match is
  dropped and the scan goes on behind it, any other character is kept.
\<close>

function drop_keys :: "string \<Rightarrow> string" where
  "drop_keys [] = []"
| "drop_keys (c # cs) =
     (if c = CHR ''%''
      then (case match_key cs of
              Some rest \<Rightarrow> drop_keys rest
            | None \<Rightarrow> c # drop_keys cs)
      else c # drop_keys cs)"
  by pat_completeness auto
termination
proof (relation "measure length")
  fix c :: char and cs rest :: string
  assume "match_key cs = Some rest"
  then obtain ds where "cs = CHR ''('' # ds"
    and "rest = drop 2 (dropWhile (\<lambda>x. x \<noteq> CHR '')'') ds)"
    by (auto simp add: match_key_def Let_def split: list.splits if_splits)
  moreover have "length (dropWhile (\<lambda>x. x \<noteq> CHR '')'') ds) \<le> length ds"
    by (rule length_dropWhile_le)
  ultimately show "(rest, c # cs) \<in> measure length" by simp
qed simp_all

definition interpolation_syntax_ok :: "string \<Rightarrow> bool" where
  "interpolation_syntax_ok s \<longleftrightarrow> CHR ''%'' \<notin> set (drop_keys (drop_escaped s))"

text \<open>
  \<^verbatim>\<open>ConfigParser.set\<close> checks the type of the value first (only a str is accepted),
  then its interpolation syntax (\<^verbatim>\<open>ValueError\<close>), then looks the section up.
\<close>

definition config_set :: "config \<Rightarrow> string \<Rightarrow> string \<Rightarrow> json \<Rightarrow> py_exception + config" where
  "config_set cfg sec opt v =
     (case v of
        JStr s \<Rightarrow>
          if \<not> interpolation_syntax_ok s then Inl ValueError
          else
            (case cfg sec of
               None \<Rightarrow> Inl NoSectionError
             | Some sect \<Rightarrow> Inr (cfg(sec \<mapsto> sect(opt \<mapsto> s))))
      | _ \<Rightarrow> Inl TypeError)"

text \<open>Subscripting a decoded document with a string key and with the index 0.\<close>

fun getitem :: "json \<Rightarrow> string \<Rightarrow> py_exception + json" where
  "getitem (JObj kvs) k = (case map_of kvs k of None \<Rightarrow> Inl KeyError | Some v \<Rightarrow> Inr v)"
| "getitem j k = Inl TypeError"

fun getitem0 :: "json \<Rightarrow> py_exception + json" where
  "getitem0 (JArr []) = Inl IndexError"
| "getitem0 (JArr (x # xs)) = Inr x"
| "getitem0 (JObj kvs) = Inl KeyError"
| "getitem0 (JStr []) = Inl IndexError"
| "getitem0 (JStr (c # cs)) = Inr (JStr [c])"
| "getitem0 j = Inl TypeError"

section \<open>The process and its surroundings\<close>

record datetime =
  year :: nat
  month :: nat
  day :: nat
  hour :: nat
  minute :: nat
  second :: nat
  microsecond :: nat

record response =
  status_code :: int
  body :: "json option"

text \<open>
  The remote operations, each standing for its URL under \<^verbatim>\<open>https://api.trakt.tv\<close>:
  \<^verbatim>\<open>/oauth/device/code\<close>, \<^verbatim>\<open>/oauth/device/token\<close>, \<^verbatim>\<open>/oauth/token\<close>,
  \<^verbatim>\<open>/search/imdb/<id>?type=movie\<close>, \<^verbatim>\<open>/search/tvdb/<id>?type=show\<close>,
  \<^verbatim>\<open>/shows/<slug>/seasons/<s>/episodes/<e>\<close> and \<^verbatim>\<open>/sync/history\<close>. The constructor
  keeps the values the source pastes into the URL with \<^verbatim>\<open>str\<close>.
\<close>

datatype endpoint =
  DeviceCode
  | DeviceToken
  | OAuthToken
  | SearchImdb pyval
  | SearchTvdb pyval
  | ShowEpisode json pyval pyval
  | SyncHistory

datatype http_method = GET | POST

type_synonym headers = "(string \<times> string) list"

text \<open>
  What the process does to the outside, in order: console output (\<open>PrintDeviceCode\<close> is
  the line showing the verification URL and the user code), a prompt waiting for ENTER,
  an HTTP request, an option set on the in-memory settings, the settings file written,
  and a write of the settings file that failed (with what it left in the file, \<open>None\<close>
  when the file was not touched).
\<close>

datatype event =
  Print string
  | PrintDeviceCode json json
  | Input string
  | Request http_method endpoint "json option" headers
  | SetOption string string string
  | Save config
  | WriteFailed "config option"

text \<open>
  The settings file is \<open>disk\<close> (\<open>None\<close> when there is no file). When it is not \<open>writable\<close>,
  writing it raises \<^verbatim>\<open>IOError\<close>: either \<^verbatim>\<open>open(path, 'w')\<close> itself fails and the file
  is as before (\<open>left_on_failure = None\<close>), or the file was opened, which empties it, and
  the error came while writing; \<open>left_on_failure\<close> then gives what a later read finds in
  the truncated file.
\<close>

record world =
  credential_path :: string
  disk :: "config option"
  writable :: bool
  left_on_failure :: "config option"
  config :: config
  clock :: datetime
  responses :: "response list"
  trace :: "event list"

type_synonym 'a step = "world \<Rightarrow> (abort + 'a) \<times> world"

definition ret :: "'a \<Rightarrow> 'a step" where
  "ret x w = (Inr x, w)"

definition raise :: "py_exception \<Rightarrow> 'a step" where
  "raise e w = (Inl (Uncaught e), w)"

definition sys_exit :: "int \<Rightarrow> 'a step" where
  "sys_exit n w = (Inl (SysExit n), w)"

definition and_then :: "'a step \<Rightarrow> ('a \<Rightarrow> 'b step) \<Rightarrow> 'b step" where
  "and_then m f w = (case m w of (Inl a, w') \<Rightarrow> (Inl a, w') | (Inr x, w') \<Rightarrow> f x w')"

definition lift :: "py_exception + 'a \<Rightarrow> 'a step" where
  "lift r = (case r of Inl e \<Rightarrow> raise e | Inr x \<Rightarrow> ret x)"

definition emit :: "event \<Rightarrow> unit step" where
  "emit e w = (Inr (), w\<lparr>trace := trace w @ [e]\<rparr>)"

definition print :: "string \<Rightarrow> unit step" where
  "print s = emit (Print s)"

text \<open>\<^verbatim>\<open>input(prompt)\<close>: the prompt is shown and the operator presses ENTER.\<close>

definition input :: "string \<Rightarrow> unit step" where
  "input s = emit (Input s)"

definition credential_file :: string where
  "credential_file = ''sync_settings.ini''"

text \<open>
  \<^verbatim>\<open>requests.get\<close> and \<^verbatim>\<open>requests.post\<close>: the request goes out and the next scripted
  answer comes back; with no answer left the library raises.
\<close>

definition request :: "http_method \<Rightarrow> endpoint \<Rightarrow> json option \<Rightarrow> headers \<Rightarrow> response step" where
  "request m ep payload hs w =
     (let w' = w\<lparr>trace := trace w @ [Request m ep payload hs]\<rparr> in
      case responses w of
        [] \<Rightarrow> (Inl (Uncaught ConnectionError), w')
      | r # rs \<Rightarrow> (Inr r, w'\<lparr>responses := rs\<rparr>))"

definition json_of :: "response \<Rightarrow> json step" where
  "json_of r = (case body r of None \<Rightarrow> raise ValueError | Some j \<Rightarrow> ret j)"

section \<open>Settings\<close>

text \<open>The \<^verbatim>\<open>try: config.get(...) except (NoSectionError, NoOptionError)\<close> blocks.\<close>

definition get_or_exit :: "string \<Rightarrow> string \<Rightarrow> string step" where
  "get_or_exit sec opt w =
     (case config_get (config w) sec opt of
        Inr v \<Rightarrow> ret v w
      | Inl e \<Rightarrow>
          and_then (print (''ERROR: '' @ credential_file @ '' not setup - missing '' @ opt))
            (\<lambda>_. sys_exit 1) w)"

definition set_option :: "string \<Rightarrow> string \<Rightarrow> json \<Rightarrow> unit step" where
  "set_option sec opt v w =
     (case config_set (config w) sec opt v of
        Inl e \<Rightarrow> raise e w
      | Inr cfg \<Rightarrow>
          (Inr (), w\<lparr>config := cfg,
                      trace := trace w @ [SetOption sec opt (case v of JStr s \<Rightarrow> s | _ \<Rightarrow> [])]\<rparr>))"

definition write_settings :: "unit step" where
  "write_settings w =
     (if writable w
      then (Inr (), w\<lparr>disk := Some (config w), trace := trace w @ [Save (config w)]\<rparr>)
      else and_then
             (print (''ERROR: unable to write to '' @ credential_path w @ ''/'' @ credential_file))
             (\<lambda>_. sys_exit 1)
             (w\<lparr>disk := (case left_on_failure w of None \<Rightarrow> disk w | Some c \<Rightarrow> Some c),
                trace := trace w @ [WriteFailed (left_on_failure w)]\<rparr>))"

text \<open>Python's \<^verbatim>\<open>str\<close> of an int and \<^verbatim>\<open>str.split(',')\<close>.\<close>

definition digit :: "nat \<Rightarrow> char" where
  "digit n = ''0123456789'' ! n"

fun str_nat :: "nat \<Rightarrow> string" where
  "str_nat n = (if n < 10 then [digit n] else str_nat (n div 10) @ [digit (n mod 10)])"

declare str_nat.simps [simp del]

definition str_int :: "int \<Rightarrow> string" where
  "str_int i = (if i < 0 then CHR ''-'' # str_nat (nat (- i)) else str_nat (nat i))"

fun split_comma :: "string \<Rightarrow> string list" where
  "split_comma [] = [[]]"
| "split_comma (c # cs) =
     (if c = CHR '','' then [] # split_comma cs
      else (case split_comma cs of [] \<Rightarrow> [[c]] | x # xs \<Rightarrow> (c # x) # xs))"

definition sync_for_user :: "int \<Rightarrow> bool step" where
  "sync_for_user user_id =
     and_then (get_or_exit ''Plex'' ''user_ids'')
       (\<lambda>user_ids. ret (str_int user_id \<in> set (split_comma user_ids)))"

section \<open>The Trakt class\<close>

text \<open>
  An attribute the constructor may leave unassigned is an option; reading it while it is
  unassigned raises.
\<close>

record trakt =
  type :: "string option"
  imdb_id :: "pyval option"
  tvdb_id :: "pyval option"
  season_num :: "pyval option"
  episode_num :: "pyval option"
  client_id :: string
  client_secret :: string

definition attr :: "'a option \<Rightarrow> 'a step" where
  "attr a = (case a of None \<Rightarrow> raise AttributeError | Some v \<Rightarrow> ret v)"

definition Trakt_init :: "pyval \<Rightarrow> pyval \<Rightarrow> pyval \<Rightarrow> pyval \<Rightarrow> trakt step" where
  "Trakt_init ty ident season episode =
     (let blank = \<lparr>type = None, imdb_id = None, tvdb_id = None, season_num = None,
                    episode_num = None, client_id = [], client_secret = []\<rparr>;
          self =
            (if ty = PStr ''movie'' then blank\<lparr>type := Some ''movie'', imdb_id := Some ident\<rparr>
             else if ty = PStr ''episode''
             then blank\<lparr>type := Some ''episode'', tvdb_id := Some ident,
                        season_num := Some season, episode_num := Some episode\<rparr>
             else blank)
      in and_then (get_or_exit ''Trakt'' ''client_id'')
           (\<lambda>cid. and_then (get_or_exit ''Trakt'' ''client_secret'')
              (\<lambda>secret. ret (self\<lparr>client_id := cid, client_secret := secret\<rparr>))))"

definition get_access_token :: "string step" where
  "get_access_token = get_or_exit ''Trakt'' ''access_token''"

definition get_refresh_token :: "string step" where
  "get_refresh_token = get_or_exit ''Trakt'' ''refresh_token''"

definition generate_device_code :: "trakt \<Rightarrow> headers \<Rightarrow> json step" where
  "generate_device_code self hs =
     (let payload = JObj [(''client_id'', JStr (client_id self))] in
      and_then (request POST DeviceCode (Some payload) hs) (\<lambda>r.
      and_then (json_of r) (\<lambda>response.
      and_then (lift (getitem response ''verification_url'')) (\<lambda>url.
      and_then (lift (getitem response ''user_code'')) (\<lambda>code.
      and_then (emit (PrintDeviceCode url code)) (\<lambda>_.
      and_then (input ''I have authorized the application! Press ENTER to continue:'') (\<lambda>i.
      lift (getitem response ''device_code''))))))))"

text \<open>
  \<^verbatim>\<open>poll_access_token(self, headers, device_code)\<close> is always called through the bound
  method, which supplies \<open>self\<close>; \<open>nargs\<close> is the number of arguments written at the
  call. \<^verbatim>\<open>authenticate\<close> writes two; the retry on status 400 writes three
  (\<^verbatim>\<open>self.poll_access_token(self, headers, device_code)\<close>), and Python refuses a call whose
  arguments do not match the parameters before the body runs.
\<close>

function poll_access_token :: "trakt \<Rightarrow> nat \<Rightarrow> headers \<Rightarrow> json \<Rightarrow> unit step" where
  "poll_access_token self nargs hs device_code w =
     (if nargs \<noteq> 2 then raise TypeError w
      else
        (let payload = JObj [(''code'', device_code),
                             (''client_id'', JStr (client_id self)),
                             (''client_secret'', JStr (client_secret self))] in
         case request POST DeviceToken (Some payload) hs w of
           (Inl a, w1) \<Rightarrow> (Inl a, w1)
         | (Inr r, w1) \<Rightarrow>
             if status_code r = 400
             then (case input ''The device hasn't been authorized yet, please do so. Press ENTER to continue:'' w1 of
                     (Inl a, w2) \<Rightarrow> (Inl a, w2)
                   | (Inr i, w2) \<Rightarrow> poll_access_token self 3 hs device_code w2)
             else if status_code r \<noteq> 200
             then and_then (print ''Something went wrong, please try again.'') (\<lambda>_. sys_exit 1) w1
             else
               and_then (json_of r) (\<lambda>response.
               and_then (lift (getitem response ''access_token'')) (\<lambda>access.
               and_then (set_option ''Trakt'' ''access_token'' access) (\<lambda>_.
               and_then (lift (getitem response ''refresh_token'')) (\<lambda>refresh.
               and_then (set_option ''Trakt'' ''refresh_token'' refresh) (\<lambda>_.
               and_then write_settings (\<lambda>_.
               print ''Succesfully configured your Trakt.tv sync!'')))))) w1))"
  by pat_completeness auto
termination
  by (relation "measure (\<lambda>(self, nargs, hs, device_code, w). if nargs = 2 then 1 else 0)") auto

definition authenticate :: "trakt \<Rightarrow> unit step" where
  "authenticate self =
     (let hs = [(''Content-Type'', ''application/json'')] in
      and_then (generate_device_code self hs)
        (\<lambda>device_code. poll_access_token self 2 hs device_code))"

definition refresh_access_token :: "trakt \<Rightarrow> unit step" where
  "refresh_access_token self =
     (let hs = [(''Content-Type'', ''application/json'')] in
      and_then get_refresh_token (\<lambda>refresh_token.
      let payload = JObj [(''refresh_token'', JStr refresh_token),
                          (''client_id'', JStr (client_id self)),
                          (''client_secret'', JStr (client_secret self)),
                          (''redirect_uri'', JStr ''urn:ietf:wg:oauth:2.0:oob''),
                          (''grant_type'', JStr ''refresh_token'')] in
      and_then (request POST OAuthToken (Some payload) hs) (\<lambda>r.
      and_then (json_of r) (\<lambda>response.
      and_then (lift (getitem response ''access_token'')) (\<lambda>access.
      and_then (set_option ''Trakt'' ''access_token'' access) (\<lambda>_.
      and_then (lift (getitem response ''refresh_token'')) (\<lambda>refresh.
      and_then (set_option ''Trakt'' ''refresh_token'' refresh) (\<lambda>_.
      and_then write_settings (\<lambda>_.
      print ''Refreshed access token succesfully!'')))))))))"

definition api_headers :: "trakt \<Rightarrow> headers" where
  "api_headers self =
     [(''Content-Type'', ''application/json''),
      (''trakt-api-version'', ''2''),
      (''trakt-api-key'', client_id self)]"

definition get_movie :: "trakt \<Rightarrow> json step" where
  "get_movie self =
     and_then (attr (imdb_id self)) (\<lambda>i.
     and_then (request GET (SearchImdb i) None (api_headers self)) (\<lambda>r.
     and_then (json_of r) (\<lambda>response.
     and_then (lift (getitem0 response)) (\<lambda>first.
     lift (getitem first ''movie'')))))"

definition get_show :: "trakt \<Rightarrow> json step" where
  "get_show self =
     and_then (attr (tvdb_id self)) (\<lambda>i.
     and_then (request GET (SearchTvdb i) None (api_headers self)) (\<lambda>r.
     and_then (json_of r) (\<lambda>response.
     and_then (lift (getitem0 response)) (\<lambda>first.
     lift (getitem first ''show'')))))"

text \<open>The nested subscript \<^verbatim>\<open>x['ids'][k]\<close>.\<close>

definition ids_item :: "json \<Rightarrow> string \<Rightarrow> py_exception + json" where
  "ids_item x k = (case getitem x ''ids'' of Inl e \<Rightarrow> Inl e | Inr ids \<Rightarrow> getitem ids k)"

definition get_episode :: "trakt \<Rightarrow> json \<Rightarrow> json step" where
  "get_episode self show =
     and_then (lift (ids_item show ''slug'')) (\<lambda>slug.
     and_then (attr (season_num self)) (\<lambda>s.
     and_then (attr (episode_num self)) (\<lambda>e.
     and_then (request GET (ShowEpisode slug s e) None (api_headers self)) (\<lambda>r.
     json_of r))))"

text \<open>
  \<^verbatim>\<open>datetime.datetime.utcnow().strftime('%Y-%m-%dT%H:%M:%S.000Z')\<close>: the clock is read
  and its fields are written zero-padded.
\<close>

definition utcnow :: "datetime step" where
  "utcnow w = (Inr (clock w), w)"

definition pad :: "nat \<Rightarrow> nat \<Rightarrow> string" where
  "pad width n = replicate (width - length (str_nat n)) (CHR ''0'') @ str_nat n"

definition strftime :: "datetime \<Rightarrow> string" where
  "strftime dt =
     pad 4 (year dt) @ ''-'' @ pad 2 (month dt) @ ''-'' @ pad 2 (day dt) @ ''T'' @
     pad 2 (hour dt) @ '':'' @ pad 2 (minute dt) @ '':'' @ pad 2 (second dt) @ ''.000Z''"

definition sync_history :: "trakt \<Rightarrow> unit step" where
  "sync_history self =
     and_then get_access_token (\<lambda>access_token.
     and_then utcnow (\<lambda>now.
     let watched_at = strftime now;
         hs = [(''Content-Type'', ''application/json''),
               (''Authorization'', ''Bearer '' @ access_token),
               (''trakt-api-version'', ''2''),
               (''trakt-api-key'', client_id self)] in
     and_then (attr (type self)) (\<lambda>ty.
     and_then
       (if ty = ''movie'' then
          and_then (get_movie self) (\<lambda>movie.
          and_then (lift (getitem movie ''title'')) (\<lambda>title.
          and_then (lift (getitem movie ''year'')) (\<lambda>yr.
          and_then (lift (ids_item movie ''trakt'')) (\<lambda>id_trakt.
          and_then (lift (ids_item movie ''slug'')) (\<lambda>id_slug.
          and_then (lift (ids_item movie ''imdb'')) (\<lambda>id_imdb.
          and_then (lift (ids_item movie ''tmdb'')) (\<lambda>id_tmdb.
          ret (Some (JObj [(''movies'', JArr [JObj
                 [(''watched_at'', JStr watched_at),
                  (''title'', title),
                  (''year'', yr),
                  (''ids'', JObj [(''trakt'', id_trakt), (''slug'', id_slug),
                                  (''imdb'', id_imdb), (''tmdb'', id_tmdb)])]])])))))))))
        else if ty = ''episode'' then
          and_then (get_show self) (\<lambda>show.
          and_then (get_episode self show) (\<lambda>episode.
          and_then (lift (ids_item episode ''trakt'')) (\<lambda>id_trakt.
          and_then (lift (ids_item episode ''tvdb'')) (\<lambda>id_tvdb.
          and_then (lift (ids_item episode ''imdb'')) (\<lambda>id_imdb.
          and_then (lift (ids_item episode ''tmdb'')) (\<lambda>id_tmdb.
          ret (Some (JObj [(''episodes'', JArr [JObj
                 [(''watched_at'', JStr watched_at),
                  (''ids'', JObj [(''trakt'', id_trakt), (''tvdb'', id_tvdb),
                                  (''imdb'', id_imdb), (''tmdb'', id_tmdb)])]])]))))))))
        else ret None)
       (\<lambda>payload.
          case payload of
            None \<Rightarrow> raise UnboundLocalError
          | Some p \<Rightarrow> and_then (request POST SyncHistory (Some p) hs) (\<lambda>r. ret ())))))"

section \<open>The script\<close>

record opts =
  userId :: int
  contentType :: string
  tvdbId :: pyval
  season :: pyval
  episode :: pyval
  imdbId :: pyval

definition main :: "opts \<Rightarrow> unit step" where
  "main opts =
     and_then (sync_for_user (userId opts)) (\<lambda>allowed.
       if \<not> allowed \<and> \<not> userId opts = - 1 then
         and_then (print ''We will not sync for this user'') (\<lambda>_. sys_exit 0)
       else if contentType opts = ''trakt_authenticate'' then
         and_then (Trakt_init PNone PNone PNone (PStr '''')) (\<lambda>trakt. authenticate trakt)
       else if contentType opts = ''trakt_refresh'' then
         and_then (Trakt_init PNone PNone PNone (PStr ''''))
           (\<lambda>trakt. refresh_access_token trakt)
       else if contentType opts = ''movie'' then
         and_then (Trakt_init (PStr ''movie'') (imdbId opts) (PStr '''') (PStr '''')) (\<lambda>trakt.
         and_then (refresh_access_token trakt) (\<lambda>_. sync_history trakt))
       else if contentType opts = ''episode'' then
         and_then (Trakt_init (PStr ''episode'') (tvdbId opts) (season opts) (episode opts))
           (\<lambda>trakt.
         and_then (refresh_access_token trakt) (\<lambda>_. sync_history trakt))
       else print (''ERROR: '' @ contentType opts @ '' not found - invalid contentType''))"

text \<open>
  The module is run top to bottom: the settings file is read into the global parser
  first (a missing file ends the process), then the arguments are dispatched.
\<close>

definition script :: "opts \<Rightarrow> unit step" where
  "script opts w =
     (case disk w of
        None \<Rightarrow>
          and_then (print (''ERROR: '' @ credential_path w @ ''/'' @ credential_file @ '' not found''))
            (\<lambda>_. sys_exit 1) w
      | Some cfg \<Rightarrow> main opts (w\<lparr>config := cfg\<rparr>))"

section \<open>Observing a run\<close>

text \<open>The number of HTTP requests among the events of a run.\<close>

fun is_request :: "event \<Rightarrow> bool" where
  "is_request (Request m ep p hs) = True"
| "is_request e = False"

definition remote_calls :: "event list \<Rightarrow> nat" where
  "remote_calls es = length (filter is_request es)"


definition poll_payload :: "trakt \<Rightarrow> json \<Rightarrow> json" where
  "poll_payload self device_code =
     JObj [(''code'', device_code),
           (''client_id'', JStr (client_id self)),
           (''client_secret'', JStr (client_secret self))]"

section \<open>Sample runs\<close>

definition sample_trakt :: config_section where
  "sample_trakt = [''client_id'' \<mapsto> ''cid'', ''client_secret'' \<mapsto> ''sec'',
                   ''access_token'' \<mapsto> ''A0'', ''refresh_token'' \<mapsto> ''R0'']"

definition sample_config :: config where
  "sample_config = [''Plex'' \<mapsto> [''user_ids'' \<mapsto> ''1,2''], ''Trakt'' \<mapsto> sample_trakt]"

definition sample_clock :: datetime where
  "sample_clock = \<lparr>year = 2024, month = 3, day = 9, hour = 7, minute = 5, second = 1,
                    microsecond = 123456\<rparr>"

definition sample_world :: "config \<Rightarrow> response list \<Rightarrow> world" where
  "sample_world cfg rs =
     \<lparr>credential_path = ''/opt/scripts'', disk = Some cfg, writable = True,
      left_on_failure = None,
      config = Map.empty, clock = sample_clock, responses = rs, trace = []\<rparr>"

definition sample_opts :: "int \<Rightarrow> string \<Rightarrow> opts" where
  "sample_opts uid ct =
     \<lparr>userId = uid, contentType = ct, tvdbId = PInt 77, season = PInt 1, episode = PInt 2,
      imdbId = PStr ''tt1''\<rparr>"

definition device_code_answer :: response where
  "device_code_answer =
     \<lparr>status_code = 200,
      body = Some (JObj [(''verification_url'', JStr ''https://trakt.tv/activate''),
                         (''user_code'', JStr ''ABCD1234''),
                         (''device_code'', JStr ''dev'')])\<rparr>"

definition pending_answer :: response where
  "pending_answer = \<lparr>status_code = 400, body = Some (JObj [])\<rparr>"

definition success_answer :: response where
  "success_answer =
     \<lparr>status_code = 200,
      body = Some (JObj [(''access_token'', JStr ''A1''), (''refresh_token'', JStr ''R1'')])\<rparr>"

definition sample_self :: trakt where
  "sample_self = \<lparr>type = None, imdb_id = None, tvdb_id = None, season_num = None,
                   episode_num = None, client_id = ''cid'', client_secret = ''sec''\<rparr>"

section \<open>The payload shapes of the specification\<close>

text \<open>
  Movie: \<^verbatim>\<open>{ movies: [{ watched_at, title, year, ids: { trakt, slug, imdb, tmdb } }] }\<close>;
  episode: \<^verbatim>\<open>{ episodes: [{ watched_at, ids: { trakt, tvdb, imdb, tmdb } }] }\<close>.
\<close>

definition spec_movie_payload ::
  "string \<Rightarrow> json \<Rightarrow> json \<Rightarrow> json \<Rightarrow> json \<Rightarrow> json \<Rightarrow> json \<Rightarrow> json" where
  "spec_movie_payload watched_at title yr trakt slug imdb tmdb =
     JObj [(''movies'', JArr [JObj
       [(''watched_at'', JStr watched_at), (''title'', title), (''year'', yr),
        (''ids'', JObj [(''trakt'', trakt), (''slug'', slug), (''imdb'', imdb), (''tmdb'', tmdb)])]])]"

definition spec_episode_payload ::
  "string \<Rightarrow> json \<Rightarrow> json \<Rightarrow> json \<Rightarrow> json \<Rightarrow> json" where
  "spec_episode_payload watched_at trakt tvdb imdb tmdb =
     JObj [(''episodes'', JArr [JObj
       [(''watched_at'', JStr watched_at),
        (''ids'', JObj [(''trakt'', trakt), (''tvdb'', tvdb), (''imdb'', imdb), (''tmdb'', tmdb)])]])]"

text \<open>The field names of each entry of a payload, in order.\<close>

fun entry_keys :: "json \<Rightarrow> string list list" where
  "entry_keys (JObj [(k, JArr es)]) = map (\<lambda>e. case e of JObj kvs \<Rightarrow> map fst kvs | _ \<Rightarrow> []) es"
| "entry_keys j = []"

definition history_headers :: "trakt \<Rightarrow> string \<Rightarrow> headers" where
  "history_headers self access_token =
     [(''Content-Type'', ''application/json''),
      (''Authorization'', ''Bearer '' @ access_token),
      (''trakt-api-version'', ''2''),
      (''trakt-api-key'', client_id self)]"

text \<open>
  A clock value \<^verbatim>\<open>utcnow\<close> can return, with a four-digit year (for earlier years the
  output of \<^verbatim>\<open>%Y\<close> depends on the platform).
\<close>

definition valid_datetime :: "datetime \<Rightarrow> bool" where
  "valid_datetime dt \<longleftrightarrow>
     1000 \<le> year dt \<and> year dt \<le> 9999 \<and> 1 \<le> month dt \<and> month dt \<le> 12 \<and>
     1 \<le> day dt \<and> day dt \<le> 31 \<and> hour dt < 24 \<and> minute dt < 60 \<and> second dt < 60 \<and>
     microsecond dt < 1000000"

definition movie_ids :: json where
  "movie_ids = JObj [(''trakt'', JNum 1), (''slug'', JStr ''x''), (''imdb'', JStr ''ttX''),
                     (''tmdb'', JNum 2)]"

definition movie_doc :: json where
  "movie_doc = JObj [(''title'', JStr ''X''), (''year'', JNum 2000), (''ids'', movie_ids)]"

definition movie_hit :: json where
  "movie_hit = JObj [(''type'', JStr ''movie''), (''score'', JNum 1000), (''movie'', movie_doc)]"

definition movie_answer :: response where
  "movie_answer = \<lparr>status_code = 200, body = Some (JArr [movie_hit])\<rparr>"

definition show_doc :: json where
  "show_doc = JObj [(''title'', JStr ''S''), (''year'', JNum 2010),
                    (''ids'', JObj [(''trakt'', JNum 5), (''slug'', JStr ''s-show'')])]"

definition show_hit :: json where
  "show_hit = JObj [(''type'', JStr ''show''), (''show'', show_doc)]"

definition show_answer :: response where
  "show_answer = \<lparr>status_code = 200, body = Some (JArr [show_hit])\<rparr>"

definition episode_doc :: json where
  "episode_doc =
     JObj [(''season'', JNum 1), (''number'', JNum 2), (''title'', JStr ''Pilot''),
           (''ids'', JObj [(''trakt'', JNum 11), (''tvdb'', JNum 12), (''imdb'', JNull),
                           (''tmdb'', JNum 14)])]"

definition episode_answer :: response where
  "episode_answer = \<lparr>status_code = 200, body = Some episode_doc\<rparr>"

definition movie_self :: trakt where
  "movie_self = sample_self\<lparr>type := Some ''movie'', imdb_id := Some (PStr ''tt1'')\<rparr>"

definition episode_self :: trakt where
  "episode_self = sample_self\<lparr>type := Some ''episode'', tvdb_id := Some (PInt 77),
                               season_num := Some (PInt 1), episode_num := Some (PInt 2)\<rparr>"

definition loaded_world :: "response list \<Rightarrow> world" where
  "loaded_world rs = (sample_world sample_config rs)\<lparr>config := sample_config\<rparr>"






section \<open>The discipline of token writes\<close>










section \<open>Basic facts\<close>

lemmas step_defs = and_then_def ret_def raise_def sys_exit_def lift_def emit_def print_def
  input_def

lemma get_or_exit_missing:
  "config_get (config w) sec opt = Inl e \<Longrightarrow>
   get_or_exit sec opt w =
     (Inl (SysExit 1),
      w\<lparr>trace := trace w @ [Print (''ERROR: sync_settings.ini not setup - missing '' @ opt)]\<rparr>)"
  by (simp add: get_or_exit_def step_defs credential_file_def)

lemma get_or_exit_present:
  "config_get (config w) sec opt = Inr v \<Longrightarrow> get_or_exit sec opt w = (Inr v, w)"
  by (simp add: get_or_exit_def step_defs)

lemma sample_user_ids:
  "config_get sample_config ''Plex'' ''user_ids'' = Inr ''1,2''"
  by (simp add: sample_config_def config_get_def)

lemma sample_no_plex:
  "config_get [''Trakt'' \<mapsto> sample_trakt] ''Plex'' ''user_ids'' = Inl NoSectionError"
  by (simp add: config_get_def)






lemma Trakt_init_missing_client_id:
  "config_get (config w) ''Trakt'' ''client_id'' = Inl e \<Longrightarrow>
   Trakt_init ty ident s ep w =
     (Inl (SysExit 1),
      w\<lparr>trace := trace w @ [Print ''ERROR: sync_settings.ini not setup - missing client_id'']\<rparr>)"
  by (simp add: Trakt_init_def Let_def and_then_def get_or_exit_missing)

text \<open>The retry of the poll never enters the body.\<close>

lemma poll_access_token_retry:
  "poll_access_token self 3 hs device_code w = (Inl (Uncaught TypeError), w)"
  by (simp add: raise_def)

lemma poll_pending_raises:
  assumes "responses w = r # rs" and "status_code r = 400"
  shows "poll_access_token self 2 hs device_code w =
           (Inl (Uncaught TypeError),
            w\<lparr>responses := rs,
              trace := trace w @
                [Request POST DeviceToken (Some (poll_payload self device_code)) hs,
                 Input ''The device hasn't been authorized yet, please do so. Press ENTER to continue:'']\<rparr>)"
  using assms by (simp add: request_def step_defs poll_payload_def)


section \<open>Submitting the history\<close>

lemmas sync_defs = sync_history_def get_access_token_def get_or_exit_def utcnow_def attr_def
  get_movie_def get_show_def get_episode_def request_def json_of_def step_defs Let_def

lemma sync_history_movie:
  assumes "type self = Some ''movie''" and "imdb_id self = Some i"
    and "config_get (config w) ''Trakt'' ''access_token'' = Inr tok"
    and "responses w = r # rs" and "body r = Some resp"
    and "getitem0 resp = Inr first" and "getitem first ''movie'' = Inr movie"
    and "getitem movie ''title'' = Inr t" and "getitem movie ''year'' = Inr y"
    and "ids_item movie ''trakt'' = Inr a" and "ids_item movie ''slug'' = Inr b"
    and "ids_item movie ''imdb'' = Inr c" and "ids_item movie ''tmdb'' = Inr d"
  shows "trace (snd (sync_history self w)) =
           trace w @
             [Request GET (SearchImdb i) None (api_headers self),
              Request POST SyncHistory
                (Some (spec_movie_payload (strftime (clock w)) t y a b c d))
                (history_headers self tok)]"
  using assms
  by (simp add: sync_defs spec_movie_payload_def history_headers_def split: list.splits)

lemma sync_history_episode:
  assumes "type self = Some ''episode''" and "tvdb_id self = Some i"
    and "season_num self = Some s" and "episode_num self = Some e"
    and "config_get (config w) ''Trakt'' ''access_token'' = Inr tok"
    and "responses w = r1 # r2 # rs" and "body r1 = Some resp"
    and "getitem0 resp = Inr first" and "getitem first ''show'' = Inr show"
    and "ids_item show ''slug'' = Inr slug"
    and "body r2 = Some ep"
    and "ids_item ep ''trakt'' = Inr a" and "ids_item ep ''tvdb'' = Inr b"
    and "ids_item ep ''imdb'' = Inr c" and "ids_item ep ''tmdb'' = Inr d"
  shows "trace (snd (sync_history self w)) =
           trace w @
             [Request GET (SearchTvdb i) None (api_headers self),
              Request GET (ShowEpisode slug s e) None (api_headers self),
              Request POST SyncHistory
                (Some (spec_episode_payload (strftime (clock w)) a b c d))
                (history_headers self tok)]"
  using assms
  by (simp add: sync_defs spec_episode_payload_def history_headers_def split: list.splits)

lemma sync_history_shapes:
  assumes "Request POST SyncHistory (Some p) hs \<in> set (trace (snd (sync_history self w)))"
    and "Request POST SyncHistory (Some p) hs \<notin> set (trace w)"
  shows "(\<exists>t y a b c d. type self = Some ''movie'' \<and>
            p = spec_movie_payload (strftime (clock w)) t y a b c d)
       \<or> (\<exists>a b c d. type self = Some ''episode'' \<and>
            p = spec_episode_payload (strftime (clock w)) a b c d)"
  using assms
  by (auto simp add: sync_defs spec_movie_payload_def spec_episode_payload_def
      split: sum.splits option.splits list.splits if_splits prod.splits)

section \<open>Formatting the time\<close>

lemma str_nat_1: "n < 10 \<Longrightarrow> str_nat n = [digit n]"
  by (subst str_nat.simps) simp

lemma str_nat_step: "10 \<le> n \<Longrightarrow> str_nat n = str_nat (n div 10) @ [digit (n mod 10)]"
  by (subst str_nat.simps) simp

lemma str_nat_2:
  assumes "10 \<le> n" and "n < 100"
  shows "str_nat n = [digit (n div 10), digit (n mod 10)]"
proof -
  have "n div 10 < 10" using assms by arith
  then show ?thesis using assms by (simp add: str_nat_step str_nat_1)
qed

lemma str_nat_3:
  assumes "100 \<le> n" and "n < 1000"
  shows "str_nat n = [digit (n div 100), digit (n div 10 mod 10), digit (n mod 10)]"
proof -
  have "10 \<le> n div 10" "n div 10 < 100" "n div 10 div 10 = n div 100" "10 \<le> n"
    using assms by arith+
  then show ?thesis by (simp add: str_nat_step [of n] str_nat_2)
qed

lemma str_nat_4:
  assumes "1000 \<le> n" and "n < 10000"
  shows "str_nat n = [digit (n div 1000), digit (n div 100 mod 10), digit (n div 10 mod 10),
                      digit (n mod 10)]"
proof -
  have "100 \<le> n div 10" "n div 10 < 1000" "n div 10 div 100 = n div 1000"
    "n div 10 div 10 = n div 100" "10 \<le> n"
    using assms by arith+
  then show ?thesis by (simp add: str_nat_step [of n] str_nat_3)
qed

lemma pad_2: "n < 100 \<Longrightarrow> pad 2 n = [digit (n div 10), digit (n mod 10)]"
proof (cases "n < 10")
  case True
  then show ?thesis by (simp add: pad_def str_nat_1 digit_def)
next
  case False
  assume "n < 100"
  with False show ?thesis by (simp add: pad_def str_nat_2)
qed

lemma pad_4:
  "1000 \<le> n \<Longrightarrow> n < 10000 \<Longrightarrow>
   pad 4 n = [digit (n div 1000), digit (n div 100 mod 10), digit (n div 10 mod 10),
              digit (n mod 10)]"
  by (simp add: pad_def str_nat_4)

lemma sample_clock_valid: "valid_datetime sample_clock"
  by (simp add: valid_datetime_def sample_clock_def)

lemmas sample_defs = loaded_world_def sample_world_def sample_config_def sample_trakt_def
  sample_self_def movie_self_def episode_self_def movie_answer_def movie_doc_def movie_ids_def
  show_answer_def show_doc_def episode_answer_def episode_doc_def movie_hit_def show_hit_def

lemma strftime_sample_clock: "strftime sample_clock = ''2024-03-09T07:05:01.000Z''"
  by (simp add: strftime_def pad_2 pad_4 sample_clock_def digit_def)

lemma loaded_world_clock: "clock (loaded_world rs) = sample_clock"
  by (simp add: loaded_world_def sample_world_def)

lemma loaded_world_trace: "trace (loaded_world rs) = []"
  by (simp add: loaded_world_def sample_world_def)

lemma movie_run:
  "trace (snd (sync_history movie_self (loaded_world [movie_answer]))) =
     [Request GET (SearchImdb (PStr ''tt1'')) None (api_headers movie_self),
      Request POST SyncHistory
        (Some (spec_movie_payload ''2024-03-09T07:05:01.000Z''
                 (JStr ''X'') (JNum 2000) (JNum 1) (JStr ''x'') (JStr ''ttX'') (JNum 2)))
        (history_headers movie_self ''A0'')]"
proof -
  have "trace (snd (sync_history movie_self (loaded_world [movie_answer]))) =
      trace (loaded_world [movie_answer]) @
        [Request GET (SearchImdb (PStr ''tt1'')) None (api_headers movie_self),
         Request POST SyncHistory
           (Some (spec_movie_payload (strftime (clock (loaded_world [movie_answer])))
                    (JStr ''X'') (JNum 2000) (JNum 1) (JStr ''x'') (JStr ''ttX'') (JNum 2)))
           (history_headers movie_self ''A0'')]"
    by (rule sync_history_movie [where r = movie_answer and rs = "[]"
          and resp = "JArr [movie_hit]" and first = movie_hit and movie = movie_doc])
       (simp_all add: sample_defs config_get_def ids_item_def)
  then show ?thesis
    by (simp add: loaded_world_clock loaded_world_trace strftime_sample_clock)
qed

section \<open>Keeping the discipline\<close>
































section \<open>The allow-list gate\<close>

text \<open>
  C10: the allow-list is looked up before the sentinel is compared. With \<open>user_ids\<close>
  absent from the settings (section or option missing), every invocation, the one with
  user id \<open>-1\<close> included, prints the missing-\<open>user_ids\<close> error and exits with status 1;
  nothing is dispatched, no request is sent and the settings file is not written.
\<close>

theorem user_ids_missing_fatal:
  assumes "disk w = Some cfg" and "config_get cfg ''Plex'' ''user_ids'' = Inl e"
  shows "script opts w =
           (Inl (SysExit 1),
            w\<lparr>config := cfg,
              trace := trace w @ [Print ''ERROR: sync_settings.ini not setup - missing user_ids'']\<rparr>)
         \<and> exit_code (fst (script opts w)) = 1
         \<and> remote_calls (trace (snd (script opts w))) = remote_calls (trace w)
         \<and> disk (snd (script opts w)) = disk w"
  using assms
  by (simp add: script_def main_def sync_for_user_def get_or_exit_missing and_then_def
      remote_calls_def)

theorem user_ids_missing_fatal_witness:
  "disk (sample_world [''Trakt'' \<mapsto> sample_trakt] []) = Some [''Trakt'' \<mapsto> sample_trakt]
   \<and> config_get [''Trakt'' \<mapsto> sample_trakt] ''Plex'' ''user_ids'' = Inl NoSectionError
   \<and> userId (sample_opts (- 1) ''trakt_authenticate'') = - 1
   \<and> exit_code (fst (script (sample_opts (- 1) ''trakt_authenticate'')
                        (sample_world [''Trakt'' \<mapsto> sample_trakt] []))) = 1
   \<and> trace (snd (script (sample_opts (- 1) ''trakt_authenticate'')
                     (sample_world [''Trakt'' \<mapsto> sample_trakt] []))) =
       [Print ''ERROR: sync_settings.ini not setup - missing user_ids'']"
proof -
  have d: "disk (sample_world [''Trakt'' \<mapsto> sample_trakt] []) = Some [''Trakt'' \<mapsto> sample_trakt]"
    by (simp add: sample_world_def)
  show ?thesis
    using user_ids_missing_fatal [OF d sample_no_plex, of "sample_opts (- 1) ''trakt_authenticate''"]
    by (simp add: sample_world_def sample_opts_def sample_no_plex)
qed

text \<open>
  C4: with the allow-list configured, a user id whose decimal form is not one of its
  comma-separated entries and that is not the sentinel \<open>-1\<close> makes the script print that
  it will not sync and exit with status 0: no request is sent, no scripted answer is
  consumed and the settings file is untouched.
\<close>

theorem not_allowed_no_remote_calls:
  assumes "disk w = Some cfg" and "config_get cfg ''Plex'' ''user_ids'' = Inr user_ids"
    and "str_int (userId opts) \<notin> set (split_comma user_ids)" and "userId opts \<noteq> - 1"
  shows "script opts w =
           (Inl (SysExit 0),
            w\<lparr>config := cfg, trace := trace w @ [Print ''We will not sync for this user'']\<rparr>)
         \<and> exit_code (fst (script opts w)) = 0
         \<and> remote_calls (trace (snd (script opts w))) = remote_calls (trace w)
         \<and> responses (snd (script opts w)) = responses w
         \<and> disk (snd (script opts w)) = disk w"
  using assms
  by (simp add: script_def main_def sync_for_user_def get_or_exit_present step_defs
      remote_calls_def)

theorem not_allowed_no_remote_calls_witness:
  "str_int 3 \<notin> set (split_comma ''1,2'')
   \<and> exit_code (fst (script (sample_opts 3 ''movie'') (sample_world sample_config []))) = 0
   \<and> remote_calls (trace (snd (script (sample_opts 3 ''movie'') (sample_world sample_config [])))) = 0"
proof -
  have d: "disk (sample_world sample_config []) = Some sample_config"
    by (simp add: sample_world_def)
  have m: "str_int (userId (sample_opts 3 ''movie'')) \<notin> set (split_comma ''1,2'')"
    by (simp add: sample_opts_def str_int_def str_nat.simps digit_def)
  have s: "userId (sample_opts 3 ''movie'') \<noteq> - 1"
    by (simp add: sample_opts_def)
  show ?thesis
    using not_allowed_no_remote_calls [OF d sample_user_ids m s] m
    by (simp add: sample_world_def sample_opts_def remote_calls_def)
qed

section \<open>The dispatcher\<close>

text \<open>
  C9: once past the allow-list gate, a content type that is none of
  \<open>trakt_authenticate\<close>, \<open>trakt_refresh\<close>, \<open>movie\<close> and \<open>episode\<close> only prints the
  invalid-contentType error: the script returns normally (status 0), sends no request
  and leaves the settings in memory and on disk as loaded.
\<close>

theorem invalid_content_type_falls_through:
  assumes "disk w = Some cfg" and "config_get cfg ''Plex'' ''user_ids'' = Inr user_ids"
    and "str_int (userId opts) \<in> set (split_comma user_ids) \<or> userId opts = - 1"
    and "contentType opts \<notin> {''trakt_authenticate'', ''trakt_refresh'', ''movie'', ''episode''}"
  shows "script opts w =
           (Inr (),
            w\<lparr>config := cfg,
              trace := trace w @
                [Print (''ERROR: '' @ contentType opts @ '' not found - invalid contentType'')]\<rparr>)
         \<and> exit_code (fst (script opts w)) = 0
         \<and> remote_calls (trace (snd (script opts w))) = remote_calls (trace w)
         \<and> responses (snd (script opts w)) = responses w
         \<and> disk (snd (script opts w)) = disk w"
  using assms
  by (auto simp add: script_def main_def sync_for_user_def get_or_exit_present step_defs
      remote_calls_def)

theorem invalid_content_type_falls_through_witness:
  "str_int 2 \<in> set (split_comma ''1,2'')
   \<and> script (sample_opts 2 ''track'') (sample_world sample_config []) =
       (Inr (),
        (sample_world sample_config [])
          \<lparr>config := sample_config,
            trace := [Print ''ERROR: track not found - invalid contentType'']\<rparr>)
   \<and> exit_code (fst (script (sample_opts 2 ''track'') (sample_world sample_config []))) = 0"
proof -
  have d: "disk (sample_world sample_config []) = Some sample_config"
    by (simp add: sample_world_def)
  have m: "str_int (userId (sample_opts 2 ''track'')) \<in> set (split_comma ''1,2'')
           \<or> userId (sample_opts 2 ''track'') = - 1"
    by (simp add: sample_opts_def str_int_def str_nat.simps digit_def)
  have c: "contentType (sample_opts 2 ''track'')
           \<notin> {''trakt_authenticate'', ''trakt_refresh'', ''movie'', ''episode''}"
    by (simp add: sample_opts_def)
  show ?thesis
    using invalid_content_type_falls_through [OF d sample_user_ids m c] m
    by (simp add: sample_world_def sample_opts_def)
qed

section \<open>Missing client id\<close>

text \<open>
  C5: when the persisted settings have no \<open>client_id\<close>, no run of the script sends a
  request or consumes an answer, and the settings file stays as it is. Every operation
  that uses the client id (the four recognised content types, once past the allow-list
  gate) stops in the constructor: it prints the error naming \<open>client_id\<close> and exits with
  status 1.
\<close>

theorem missing_client_id_fatal:
  assumes "disk w = Some cfg" and "config_get cfg ''Trakt'' ''client_id'' = Inl e"
  shows "remote_calls (trace (snd (script opts w))) = remote_calls (trace w)
         \<and> responses (snd (script opts w)) = responses w
         \<and> disk (snd (script opts w)) = disk w
         \<and> (config_get cfg ''Plex'' ''user_ids'' = Inr user_ids
              \<and> (str_int (userId opts) \<in> set (split_comma user_ids) \<or> userId opts = - 1)
              \<and> contentType opts \<in> {''trakt_authenticate'', ''trakt_refresh'', ''movie'', ''episode''}
            \<longrightarrow> script opts w =
                  (Inl (SysExit 1),
                   w\<lparr>config := cfg,
                     trace := trace w @
                       [Print ''ERROR: sync_settings.ini not setup - missing client_id'']\<rparr>)
                \<and> exit_code (fst (script opts w)) = 1)"
proof -
  have init: "\<And>ty i s ep. Trakt_init ty i s ep (w\<lparr>config := cfg\<rparr>) =
     (Inl (SysExit 1),
      w\<lparr>config := cfg,
        trace := trace w @ [Print ''ERROR: sync_settings.ini not setup - missing client_id'']\<rparr>)"
    using assms(2) by (simp add: Trakt_init_missing_client_id)
  show ?thesis
  proof (cases "config_get cfg ''Plex'' ''user_ids''")
    case (Inl a)
    then show ?thesis using assms(1)
      by (simp add: script_def main_def sync_for_user_def get_or_exit_missing and_then_def
          remote_calls_def)
  next
    case (Inr ids)
    then show ?thesis using assms(1) init
      by (auto simp add: script_def main_def sync_for_user_def get_or_exit_present step_defs
          remote_calls_def)
  qed
qed

theorem missing_client_id_fatal_witness:
  "config_get [''Plex'' \<mapsto> [''user_ids'' \<mapsto> ''1,2''], ''Trakt'' \<mapsto> [''client_secret'' \<mapsto> ''sec'']]
     ''Trakt'' ''client_id'' = Inl NoOptionError
   \<and> script (sample_opts 1 ''movie'')
        (sample_world [''Plex'' \<mapsto> [''user_ids'' \<mapsto> ''1,2''], ''Trakt'' \<mapsto> [''client_secret'' \<mapsto> ''sec'']]
           [success_answer]) =
       (Inl (SysExit 1),
        (sample_world [''Plex'' \<mapsto> [''user_ids'' \<mapsto> ''1,2''], ''Trakt'' \<mapsto> [''client_secret'' \<mapsto> ''sec'']]
           [success_answer])
          \<lparr>config := [''Plex'' \<mapsto> [''user_ids'' \<mapsto> ''1,2''], ''Trakt'' \<mapsto> [''client_secret'' \<mapsto> ''sec'']],
            trace := [Print ''ERROR: sync_settings.ini not setup - missing client_id'']\<rparr>)"
proof -
  let ?cfg = "[''Plex'' \<mapsto> [''user_ids'' \<mapsto> ''1,2''], ''Trakt'' \<mapsto> [''client_secret'' \<mapsto> ''sec'']]"
  have d: "disk (sample_world ?cfg [success_answer]) = Some ?cfg"
    by (simp add: sample_world_def)
  have c: "config_get ?cfg ''Trakt'' ''client_id'' = Inl NoOptionError"
    by (simp add: config_get_def)
  have u: "config_get ?cfg ''Plex'' ''user_ids'' = Inr ''1,2''"
    by (simp add: config_get_def)
  have m: "str_int (userId (sample_opts 1 ''movie'')) \<in> set (split_comma ''1,2'')"
    by (simp add: sample_opts_def str_int_def str_nat.simps digit_def)
  have t: "contentType (sample_opts 1 ''movie'')
           \<in> {''trakt_authenticate'', ''trakt_refresh'', ''movie'', ''episode''}"
    by (simp add: sample_opts_def)
  have run: "script (sample_opts 1 ''movie'') (sample_world ?cfg [success_answer]) =
      (Inl (SysExit 1),
       (sample_world ?cfg [success_answer])
         \<lparr>config := ?cfg,
           trace := trace (sample_world ?cfg [success_answer]) @
             [Print ''ERROR: sync_settings.ini not setup - missing client_id'']\<rparr>)"
    using missing_client_id_fatal [OF d c, of "sample_opts 1 ''movie''" "''1,2''"] u m t
    by blast
  show ?thesis
    using c run by (simp add: sample_world_def)
qed

section \<open>Device-token polling\<close>

text \<open>
  C6: a poll answered with a status that is neither 400 nor 200 prints the error line
  and exits with status 1; the settings in memory and on disk are exactly as before
  (no token is set, nothing is saved).
\<close>

theorem poll_other_status_fatal:
  assumes "responses w = r # rs" and "status_code r \<noteq> 400" and "status_code r \<noteq> 200"
  shows "poll_access_token self 2 hs device_code w =
           (Inl (SysExit 1),
            w\<lparr>responses := rs,
              trace := trace w @
                [Request POST DeviceToken (Some (poll_payload self device_code)) hs,
                 Print ''Something went wrong, please try again.'']\<rparr>)
         \<and> exit_code (fst (poll_access_token self 2 hs device_code w)) = 1
         \<and> disk (snd (poll_access_token self 2 hs device_code w)) = disk w
         \<and> config (snd (poll_access_token self 2 hs device_code w)) = config w"
  using assms by (simp add: request_def step_defs poll_payload_def)

theorem poll_other_status_fatal_witness:
  "status_code \<lparr>status_code = 403, body = None\<rparr> \<noteq> 400
   \<and> status_code \<lparr>status_code = 403, body = None\<rparr> \<noteq> 200
   \<and> fst (poll_access_token sample_self 2 [] (JStr ''dev'')
            (sample_world sample_config [\<lparr>status_code = 403, body = None\<rparr>])) = Inl (SysExit 1)
   \<and> disk (snd (poll_access_token sample_self 2 [] (JStr ''dev'')
            (sample_world sample_config [\<lparr>status_code = 403, body = None\<rparr>]))) = Some sample_config"
proof -
  have r: "responses (sample_world sample_config [\<lparr>status_code = 403, body = None\<rparr>]) =
           \<lparr>status_code = 403, body = None\<rparr> # []"
    by (simp add: sample_world_def)
  have a: "status_code \<lparr>status_code = 403, body = None\<rparr> \<noteq> 400" by simp
  have b: "status_code \<lparr>status_code = 403, body = None\<rparr> \<noteq> 200" by simp
  show ?thesis
    using poll_other_status_fatal [OF r a b, of sample_self "[]" "JStr ''dev''"]
    by (simp add: sample_world_def)
qed

text \<open>
  C1 (what the code does): authenticating with the answers device code, pending (400),
  success (200 with both tokens). After the pending answer the operator is prompted and
  the retry call raises \<open>TypeError\<close>: the success answer is never fetched, no token is
  set, the settings file is never written and the process ends with status 1.
\<close>

theorem authenticate_pending_then_success:
  "script (sample_opts (- 1) ''trakt_authenticate'')
     (sample_world sample_config [device_code_answer, pending_answer, success_answer]) =
   (Inl (Uncaught TypeError),
    (sample_world sample_config [device_code_answer, pending_answer, success_answer])
      \<lparr>config := sample_config,
        responses := [success_answer],
        trace :=
          [Request POST DeviceCode (Some (JObj [(''client_id'', JStr ''cid'')]))
             [(''Content-Type'', ''application/json'')],
           PrintDeviceCode (JStr ''https://trakt.tv/activate'') (JStr ''ABCD1234''),
           Input ''I have authorized the application! Press ENTER to continue:'',
           Request POST DeviceToken
             (Some (JObj [(''code'', JStr ''dev''), (''client_id'', JStr ''cid''),
                          (''client_secret'', JStr ''sec'')]))
             [(''Content-Type'', ''application/json'')],
           Input ''The device hasn't been authorized yet, please do so. Press ENTER to continue:'']\<rparr>)"
  by (simp add: script_def main_def sample_world_def sample_opts_def sample_config_def
      sample_trakt_def sync_for_user_def get_or_exit_def config_get_def step_defs Trakt_init_def
      authenticate_def generate_device_code_def request_def json_of_def Let_def
      device_code_answer_def pending_answer_def success_answer_def)

section \<open>Refreshing the tokens\<close>




section \<open>The submitted payload\<close>

text \<open>
  C7: \<open>sync_history\<close> submits the payload of the variant. For a movie whose lookup
  succeeds, the requests are the search and then the history submission with
  \<open>{movies: [{watched_at, title, year, ids: {trakt, slug, imdb, tmdb}}]}\<close>, every value the
  one found in the looked-up movie. For an episode, after the show and episode lookups,
  the submission carries \<open>{episodes: [{watched_at, ids: {trakt, tvdb, imdb, tmdb}}]}\<close> with
  the ids of the looked-up episode. Whatever \<open>sync_history\<close> submits has one of these two
  shapes, the one of its variant; the episode entry has the fields \<open>watched_at\<close> and \<open>ids\<close>
  only.
\<close>

theorem sync_history_payload:
  "(type self = Some ''movie'' \<and> imdb_id self = Some i
      \<and> config_get (config w) ''Trakt'' ''access_token'' = Inr tok
      \<and> responses w = r # rs \<and> body r = Some resp
      \<and> getitem0 resp = Inr first \<and> getitem first ''movie'' = Inr movie
      \<and> getitem movie ''title'' = Inr t \<and> getitem movie ''year'' = Inr y
      \<and> ids_item movie ''trakt'' = Inr a \<and> ids_item movie ''slug'' = Inr b
      \<and> ids_item movie ''imdb'' = Inr c \<and> ids_item movie ''tmdb'' = Inr d
    \<longrightarrow> trace (snd (sync_history self w)) =
          trace w @
            [Request GET (SearchImdb i) None (api_headers self),
             Request POST SyncHistory
               (Some (spec_movie_payload (strftime (clock w)) t y a b c d))
               (history_headers self tok)])
   \<and> (type self = Some ''episode'' \<and> tvdb_id self = Some i
      \<and> season_num self = Some s \<and> episode_num self = Some e
      \<and> config_get (config w) ''Trakt'' ''access_token'' = Inr tok
      \<and> responses w = r # r2 # rs \<and> body r = Some resp
      \<and> getitem0 resp = Inr first \<and> getitem first ''show'' = Inr sh
      \<and> ids_item sh ''slug'' = Inr slug \<and> body r2 = Some ep
      \<and> ids_item ep ''trakt'' = Inr a \<and> ids_item ep ''tvdb'' = Inr b
      \<and> ids_item ep ''imdb'' = Inr c \<and> ids_item ep ''tmdb'' = Inr d
    \<longrightarrow> trace (snd (sync_history self w)) =
          trace w @
            [Request GET (SearchTvdb i) None (api_headers self),
             Request GET (ShowEpisode slug s e) None (api_headers self),
             Request POST SyncHistory
               (Some (spec_episode_payload (strftime (clock w)) a b c d))
               (history_headers self tok)])
   \<and> (Request POST SyncHistory (Some p) hs \<in> set (trace (snd (sync_history self w)))
      \<and> Request POST SyncHistory (Some p) hs \<notin> set (trace w)
    \<longrightarrow> (\<exists>t y a b c d. type self = Some ''movie'' \<and>
            p = spec_movie_payload (strftime (clock w)) t y a b c d)
        \<or> (\<exists>a b c d. type self = Some ''episode'' \<and>
            p = spec_episode_payload (strftime (clock w)) a b c d))
   \<and> entry_keys (spec_movie_payload wa t y a b c d) = [[''watched_at'', ''title'', ''year'', ''ids'']]
   \<and> entry_keys (spec_episode_payload wa a b c d) = [[''watched_at'', ''ids'']]"
proof (intro conjI impI)
  assume "type self = Some ''movie'' \<and> imdb_id self = Some i
      \<and> config_get (config w) ''Trakt'' ''access_token'' = Inr tok
      \<and> responses w = r # rs \<and> body r = Some resp
      \<and> getitem0 resp = Inr first \<and> getitem first ''movie'' = Inr movie
      \<and> getitem movie ''title'' = Inr t \<and> getitem movie ''year'' = Inr y
      \<and> ids_item movie ''trakt'' = Inr a \<and> ids_item movie ''slug'' = Inr b
      \<and> ids_item movie ''imdb'' = Inr c \<and> ids_item movie ''tmdb'' = Inr d"
  then show "trace (snd (sync_history self w)) =
          trace w @
            [Request GET (SearchImdb i) None (api_headers self),
             Request POST SyncHistory
               (Some (spec_movie_payload (strftime (clock w)) t y a b c d))
               (history_headers self tok)]"
    by (elim conjE) (rule sync_history_movie; assumption)
next
  assume "type self = Some ''episode'' \<and> tvdb_id self = Some i
      \<and> season_num self = Some s \<and> episode_num self = Some e
      \<and> config_get (config w) ''Trakt'' ''access_token'' = Inr tok
      \<and> responses w = r # r2 # rs \<and> body r = Some resp
      \<and> getitem0 resp = Inr first \<and> getitem first ''show'' = Inr sh
      \<and> ids_item sh ''slug'' = Inr slug \<and> body r2 = Some ep
      \<and> ids_item ep ''trakt'' = Inr a \<and> ids_item ep ''tvdb'' = Inr b
      \<and> ids_item ep ''imdb'' = Inr c \<and> ids_item ep ''tmdb'' = Inr d"
  then show "trace (snd (sync_history self w)) =
          trace w @
            [Request GET (SearchTvdb i) None (api_headers self),
             Request GET (ShowEpisode slug s e) None (api_headers self),
             Request POST SyncHistory
               (Some (spec_episode_payload (strftime (clock w)) a b c d))
               (history_headers self tok)]"
    by (elim conjE) (rule sync_history_episode; assumption)
next
  assume "Request POST SyncHistory (Some p) hs \<in> set (trace (snd (sync_history self w)))
      \<and> Request POST SyncHistory (Some p) hs \<notin> set (trace w)"
  then show "(\<exists>t y a b c d. type self = Some ''movie'' \<and>
            p = spec_movie_payload (strftime (clock w)) t y a b c d)
        \<or> (\<exists>a b c d. type self = Some ''episode'' \<and>
            p = spec_episode_payload (strftime (clock w)) a b c d)"
    using sync_history_shapes by blast
next
  show "entry_keys (spec_movie_payload wa t y a b c d) =
          [[''watched_at'', ''title'', ''year'', ''ids'']]"
    by (simp add: spec_movie_payload_def)
next
  show "entry_keys (spec_episode_payload wa a b c d) = [[''watched_at'', ''ids'']]"
    by (simp add: spec_episode_payload_def)
qed

theorem sync_history_payload_witness:
  "trace (snd (sync_history movie_self (loaded_world [movie_answer]))) =
     [Request GET (SearchImdb (PStr ''tt1'')) None (api_headers movie_self),
      Request POST SyncHistory
        (Some (JObj [(''movies'', JArr [JObj
           [(''watched_at'', JStr ''2024-03-09T07:05:01.000Z''),
            (''title'', JStr ''X''), (''year'', JNum 2000),
            (''ids'', JObj [(''trakt'', JNum 1), (''slug'', JStr ''x''),
                            (''imdb'', JStr ''ttX''), (''tmdb'', JNum 2)])]])]))
        (history_headers movie_self ''A0'')]
   \<and> trace (snd (sync_history episode_self (loaded_world [show_answer, episode_answer]))) =
     [Request GET (SearchTvdb (PInt 77)) None (api_headers episode_self),
      Request GET (ShowEpisode (JStr ''s-show'') (PInt 1) (PInt 2)) None (api_headers episode_self),
      Request POST SyncHistory
        (Some (JObj [(''episodes'', JArr [JObj
           [(''watched_at'', JStr ''2024-03-09T07:05:01.000Z''),
            (''ids'', JObj [(''trakt'', JNum 11), (''tvdb'', JNum 12),
                            (''imdb'', JNull), (''tmdb'', JNum 14)])]])]))
        (history_headers episode_self ''A0'')]"
proof -
  have "trace (snd (sync_history movie_self (loaded_world [movie_answer]))) =
      trace (loaded_world [movie_answer]) @
        [Request GET (SearchImdb (PStr ''tt1'')) None (api_headers movie_self),
         Request POST SyncHistory
           (Some (spec_movie_payload (strftime (clock (loaded_world [movie_answer])))
                    (JStr ''X'') (JNum 2000) (JNum 1) (JStr ''x'') (JStr ''ttX'') (JNum 2)))
           (history_headers movie_self ''A0'')]"
    by (rule sync_history_payload
          [where self = movie_self and w = "loaded_world [movie_answer]" and r = movie_answer
             and rs = "[]" and resp = "JArr [movie_hit]" and first = movie_hit
             and movie = movie_doc,
           THEN conjunct1, THEN mp])
       (simp add: sample_defs config_get_def ids_item_def)
  moreover
  have "trace (snd (sync_history episode_self (loaded_world [show_answer, episode_answer]))) =
      trace (loaded_world [show_answer, episode_answer]) @
        [Request GET (SearchTvdb (PInt 77)) None (api_headers episode_self),
         Request GET (ShowEpisode (JStr ''s-show'') (PInt 1) (PInt 2)) None
           (api_headers episode_self),
         Request POST SyncHistory
           (Some (spec_episode_payload
                    (strftime (clock (loaded_world [show_answer, episode_answer])))
                    (JNum 11) (JNum 12) JNull (JNum 14)))
           (history_headers episode_self ''A0'')]"
    by (rule sync_history_payload
          [where self = episode_self and w = "loaded_world [show_answer, episode_answer]"
             and r = show_answer and ?r2.0 = episode_answer and rs = "[]"
             and resp = "JArr [show_hit]" and first = show_hit
             and sh = show_doc and ep = episode_doc,
           THEN conjunct2, THEN conjunct1, THEN mp])
       (simp add: sample_defs config_get_def ids_item_def)
  ultimately show ?thesis
    by (simp add: loaded_world_clock loaded_world_trace strftime_sample_clock
        spec_movie_payload_def spec_episode_payload_def)
qed

section \<open>The time stamp\<close>

text \<open>
  C8: for a clock value with a four-digit year, the stamp is the 24 characters
  \<open>YYYY-MM-DDTHH:MM:SS.000Z\<close>: the decimal digits of year, month, day, hour, minute and
  second of the UTC clock, zero-padded, then the fixed \<open>.000Z\<close>. The microseconds of the
  clock do not show. Every payload \<open>sync_history\<close> submits carries this string, built from
  the clock at the time of the call, as the \<open>watched_at\<close> of its entry.
\<close>

theorem watched_at_format:
  assumes "valid_datetime dt"
  shows "strftime dt =
     [digit (year dt div 1000), digit (year dt div 100 mod 10), digit (year dt div 10 mod 10),
      digit (year dt mod 10), CHR ''-'',
      digit (month dt div 10), digit (month dt mod 10), CHR ''-'',
      digit (day dt div 10), digit (day dt mod 10), CHR ''T'',
      digit (hour dt div 10), digit (hour dt mod 10), CHR '':'',
      digit (minute dt div 10), digit (minute dt mod 10), CHR '':'',
      digit (second dt div 10), digit (second dt mod 10),
      CHR ''.'', CHR ''0'', CHR ''0'', CHR ''0'', CHR ''Z'']
   \<and> strftime (dt\<lparr>microsecond := u\<rparr>) = strftime dt
   \<and> (clock w = dt
      \<and> Request POST SyncHistory (Some p) hs \<in> set (trace (snd (sync_history self w)))
      \<and> Request POST SyncHistory (Some p) hs \<notin> set (trace w)
    \<longrightarrow> (\<exists>k rest. p = JObj [(k, JArr [JObj ((''watched_at'', JStr (strftime dt)) # rest)])]))"
proof (intro conjI impI)
  show "strftime dt =
     [digit (year dt div 1000), digit (year dt div 100 mod 10), digit (year dt div 10 mod 10),
      digit (year dt mod 10), CHR ''-'',
      digit (month dt div 10), digit (month dt mod 10), CHR ''-'',
      digit (day dt div 10), digit (day dt mod 10), CHR ''T'',
      digit (hour dt div 10), digit (hour dt mod 10), CHR '':'',
      digit (minute dt div 10), digit (minute dt mod 10), CHR '':'',
      digit (second dt div 10), digit (second dt mod 10),
      CHR ''.'', CHR ''0'', CHR ''0'', CHR ''0'', CHR ''Z'']"
    using assms by (simp add: valid_datetime_def strftime_def pad_2 pad_4)
next
  show "strftime (dt\<lparr>microsecond := u\<rparr>) = strftime dt"
    by (simp add: strftime_def)
next
  assume h: "clock w = dt
      \<and> Request POST SyncHistory (Some p) hs \<in> set (trace (snd (sync_history self w)))
      \<and> Request POST SyncHistory (Some p) hs \<notin> set (trace w)"
  then have "(\<exists>t y a b c d. type self = Some ''movie'' \<and>
            p = spec_movie_payload (strftime (clock w)) t y a b c d)
        \<or> (\<exists>a b c d. type self = Some ''episode'' \<and>
            p = spec_episode_payload (strftime (clock w)) a b c d)"
    using sync_history_shapes by blast
  with h show "\<exists>k rest. p = JObj [(k, JArr [JObj ((''watched_at'', JStr (strftime dt)) # rest)])]"
    by (auto simp add: spec_movie_payload_def spec_episode_payload_def)
qed

theorem watched_at_format_witness:
  "valid_datetime sample_clock
   \<and> strftime sample_clock = ''2024-03-09T07:05:01.000Z''
   \<and> strftime (sample_clock\<lparr>microsecond := 0\<rparr>) = strftime sample_clock
   \<and> Request POST SyncHistory
        (Some (spec_movie_payload ''2024-03-09T07:05:01.000Z''
                 (JStr ''X'') (JNum 2000) (JNum 1) (JStr ''x'') (JStr ''ttX'') (JNum 2)))
        (history_headers movie_self ''A0'')
      \<in> set (trace (snd (sync_history movie_self (loaded_world [movie_answer]))))
   \<and> (\<exists>k rest.
         spec_movie_payload ''2024-03-09T07:05:01.000Z''
           (JStr ''X'') (JNum 2000) (JNum 1) (JStr ''x'') (JStr ''ttX'') (JNum 2) =
         JObj [(k, JArr [JObj ((''watched_at'', JStr (strftime sample_clock)) # rest)])])"
proof -
  let ?p = "spec_movie_payload ''2024-03-09T07:05:01.000Z''
              (JStr ''X'') (JNum 2000) (JNum 1) (JStr ''x'') (JStr ''ttX'') (JNum 2)"
  let ?w = "loaded_world [movie_answer]"
  note fmt = watched_at_format [OF sample_clock_valid, of 0 ?w ?p
      "history_headers movie_self ''A0''" movie_self]
  have sent: "Request POST SyncHistory (Some ?p) (history_headers movie_self ''A0'')
      \<in> set (trace (snd (sync_history movie_self ?w)))"
    by (simp add: movie_run)
  have fresh: "Request POST SyncHistory (Some ?p) (history_headers movie_self ''A0'')
      \<notin> set (trace ?w)"
    by (simp add: loaded_world_trace)
  have digits: "strftime sample_clock = ''2024-03-09T07:05:01.000Z''"
    using fmt by (simp add: sample_clock_def digit_def)
  have stamp: "\<exists>k rest. ?p = JObj [(k, JArr [JObj ((''watched_at'', JStr (strftime sample_clock)) # rest)])]"
    using fmt sent fresh loaded_world_clock [of "[movie_answer]"] by blast
  show ?thesis
    using sample_clock_valid digits fmt sent stamp by blast
qed

section \<open>Tokens are written together and flushed\<close>




end
